theory Spec2Isabelle
  imports Complex_Main "HOL-Library.Sublist"
begin

section \<open>Numeric cells\<close>

text \<open>
  Every cell of a pandas column in \<^verbatim>\<open>stock_analyzer.py\<close> is a double. The model keeps
  the four kinds of value the code can tell apart: a finite number, the two infinities
  (a division by zero produces them) and NaN (pandas' missing value). Finite arithmetic is
  exact arithmetic on the reals: rounding and overflow are not modelled, and the two zeros
  of IEEE 754 are one value (a finite non-zero number divided by zero is taken as the
  infinity of the dividend's sign).
\<close>

datatype fl = Fin real | PInf | NInf | NaN

text \<open>\<^verbatim>\<open>a > b\<close>: false as soon as one side is NaN.\<close>

fun fgt :: "fl \<Rightarrow> fl \<Rightarrow> bool" where
  "fgt NaN _ = False"
| "fgt _ NaN = False"
| "fgt (Fin a) (Fin b) = (a > b)"
| "fgt PInf PInf = False"
| "fgt PInf _ = True"
| "fgt NInf _ = False"
| "fgt (Fin a) NInf = True"
| "fgt (Fin a) PInf = False"

definition flt :: "fl \<Rightarrow> fl \<Rightarrow> bool" where
  "flt a b = fgt b a"

fun fneg :: "fl \<Rightarrow> fl" where
  "fneg (Fin a) = Fin (- a)"
| "fneg PInf = NInf"
| "fneg NInf = PInf"
| "fneg NaN = NaN"

fun fabs :: "fl \<Rightarrow> fl" where
  "fabs (Fin a) = Fin \<bar>a\<bar>"
| "fabs PInf = PInf"
| "fabs NInf = PInf"
| "fabs NaN = NaN"

fun fadd :: "fl \<Rightarrow> fl \<Rightarrow> fl" where
  "fadd NaN _ = NaN"
| "fadd _ NaN = NaN"
| "fadd (Fin a) (Fin b) = Fin (a + b)"
| "fadd PInf NInf = NaN"
| "fadd NInf PInf = NaN"
| "fadd PInf _ = PInf"
| "fadd NInf _ = NInf"
| "fadd (Fin a) PInf = PInf"
| "fadd (Fin a) NInf = NInf"

definition fsub :: "fl \<Rightarrow> fl \<Rightarrow> fl" where
  "fsub a b = fadd a (fneg b)"

fun fmul :: "fl \<Rightarrow> fl \<Rightarrow> fl" where
  "fmul NaN _ = NaN"
| "fmul _ NaN = NaN"
| "fmul (Fin a) (Fin b) = Fin (a * b)"
| "fmul PInf (Fin b) = (if b = 0 then NaN else if 0 < b then PInf else NInf)"
| "fmul NInf (Fin b) = (if b = 0 then NaN else if 0 < b then NInf else PInf)"
| "fmul (Fin a) PInf = (if a = 0 then NaN else if 0 < a then PInf else NInf)"
| "fmul (Fin a) NInf = (if a = 0 then NaN else if 0 < a then NInf else PInf)"
| "fmul PInf PInf = PInf"
| "fmul PInf NInf = NInf"
| "fmul NInf PInf = NInf"
| "fmul NInf NInf = PInf"

fun fdiv :: "fl \<Rightarrow> fl \<Rightarrow> fl" where
  "fdiv NaN _ = NaN"
| "fdiv _ NaN = NaN"
| "fdiv (Fin a) (Fin b) =
     (if b \<noteq> 0 then Fin (a / b)
      else if 0 < a then PInf else if a < 0 then NInf else NaN)"
| "fdiv (Fin a) PInf = Fin 0"
| "fdiv (Fin a) NInf = Fin 0"
| "fdiv PInf (Fin b) = (if 0 \<le> b then PInf else NInf)"
| "fdiv NInf (Fin b) = (if 0 \<le> b then NInf else PInf)"
| "fdiv PInf _ = NaN"
| "fdiv NInf _ = NaN"

section \<open>Signal Evaluator\<close>

text \<open>
  The latest row of a symbol's frame, as \<^verbatim>\<open>data.iloc[-1]\<close> hands it to the evaluator:
  the OHLCV cells of the bar and the columns that \<^verbatim>\<open>calculate_technical_indicators\<close>
  appended.
\<close>

record bar =
  Date :: nat
  Open :: fl
  High :: fl
  Low :: fl
  Close :: fl
  Volume :: fl

record row = bar +
  MA_50 :: fl
  MA_200 :: fl
  RSI :: fl
  MACD :: fl
  MACD_Signal :: fl
  MACD_Histogram :: fl
  BB_Middle :: fl
  BB_Upper :: fl
  BB_Lower :: fl
  Volatility :: fl
  Price_Change_Pct :: fl

text \<open>\<^verbatim>\<open>_get_ma_signal\<close>; Python's \<^verbatim>\<open>a > b > c\<close> is \<^verbatim>\<open>a > b and b > c\<close>.\<close>

definition get_ma_signal :: "row \<Rightarrow> string" where
  "get_ma_signal data =
     (let close = Close data; ma50 = MA_50 data; ma200 = MA_200 data in
      if fgt close ma50 \<and> fgt ma50 ma200 then ''Strong Bullish''
      else if fgt close ma50 then ''Bullish''
      else if flt close ma50 \<and> flt ma50 ma200 then ''Strong Bearish''
      else ''Bearish'')"

text \<open>\<^verbatim>\<open>_get_rsi_signal\<close>\<close>

definition get_rsi_signal :: "fl \<Rightarrow> string" where
  "get_rsi_signal rsi =
     (if fgt rsi (Fin 70) then ''Overbought''
      else if flt rsi (Fin 30) then ''Oversold''
      else ''Neutral'')"

text \<open>\<^verbatim>\<open>_get_macd_signal\<close>\<close>

definition get_macd_signal :: "row \<Rightarrow> string" where
  "get_macd_signal data =
     (if fgt (MACD data) (MACD_Signal data) then ''Bullish'' else ''Bearish'')"

text \<open>\<^verbatim>\<open>_get_bb_signal\<close>\<close>

definition get_bb_signal :: "row \<Rightarrow> string" where
  "get_bb_signal data =
     (let close = Close data in
      if fgt close (BB_Upper data) then ''Above upper band - potentially overbought''
      else if flt close (BB_Lower data) then ''Below lower band - potentially oversold''
      else ''Within normal range'')"

text \<open>Python's \<^verbatim>\<open>sub in s\<close> on strings: \<^verbatim>\<open>sub\<close> occurs as a contiguous run of \<^verbatim>\<open>s\<close>.\<close>

fun str_in :: "string \<Rightarrow> string \<Rightarrow> bool" where
  "str_in sub [] = (sub = [])"
| "str_in sub (c # cs) = (prefix sub (c # cs) \<or> str_in sub cs)"

text \<open>\<^verbatim>\<open>_calculate_composite_score\<close>: the three updates of \<^verbatim>\<open>score\<close>, then the clamp.\<close>

definition ma_score :: "string \<Rightarrow> int" where
  "ma_score ma_signal =
     (if str_in ''Bullish'' ma_signal then (if str_in ''Strong'' ma_signal then 2 else 1)
      else if str_in ''Bearish'' ma_signal then - (if str_in ''Strong'' ma_signal then 2 else 1)
      else 0)"

definition rsi_score :: "string \<Rightarrow> int" where
  "rsi_score rsi_signal =
     (if rsi_signal = ''Overbought'' then - 1
      else if rsi_signal = ''Oversold'' then 1
      else 0)"

definition macd_score :: "string \<Rightarrow> int" where
  "macd_score macd_signal = (if macd_signal = ''Bullish'' then 1 else - 1)"

definition calculate_composite_score :: "string \<Rightarrow> string \<Rightarrow> string \<Rightarrow> int" where
  "calculate_composite_score ma_signal rsi_signal macd_signal =
     (let score = 0;
          score = score + ma_score ma_signal;
          score = score + rsi_score rsi_signal;
          score = score + macd_score macd_signal
      in max (- 3) (min 3 score))"

section \<open>Recommendation Mapper\<close>

definition recommendations :: "(int \<times> string) list" where
  "recommendations =
     [(3, ''Strong Buy''), (2, ''Strong Buy''),
      (1, ''Buy''), (0, ''Hold''),
      (- 1, ''Sell''), (- 2, ''Strong Sell''), (- 3, ''Strong Sell'')]"

text \<open>\<^verbatim>\<open>_get_recommendation\<close>: \<^verbatim>\<open>recommendations.get(score, "Hold")\<close>.\<close>

definition get_recommendation :: "int \<Rightarrow> string" where
  "get_recommendation score =
     (case map_of recommendations score of Some label \<Rightarrow> label | None \<Rightarrow> ''Hold'')"

text \<open>\<^verbatim>\<open>_analyze_single_stock\<close>: the dictionary it returns, as a record.\<close>

record analysis =
  ma_signal :: string
  rsi_value :: fl
  rsi_signal :: string
  macd_signal :: string
  bb_signal :: string
  score :: int
  recommendation :: string

definition analyze_single_stock :: "row \<Rightarrow> analysis" where
  "analyze_single_stock latest_data =
     (let ma = get_ma_signal latest_data;
          rsi = RSI latest_data;
          rsi_sig = get_rsi_signal rsi;
          macd = get_macd_signal latest_data;
          bb = get_bb_signal latest_data;
          sc = calculate_composite_score ma rsi_sig macd;
          rec = get_recommendation sc
      in \<lparr>ma_signal = ma, rsi_value = rsi, rsi_signal = rsi_sig, macd_signal = macd,
          bb_signal = bb, score = sc, recommendation = rec\<rparr>)"

text \<open>
  \<^verbatim>\<open>analyze_trends\<close>: for every symbol of \<^verbatim>\<open>stock_data\<close>, the latest row
  (\<^verbatim>\<open>data.iloc[-1]\<close>, which raises IndexError on an empty frame), its analysis, and the
  two entries added to it; the result is stored under the symbol in
  \<^verbatim>\<open>analysis_results\<close>.
\<close>

datatype error = IndexError

record result = analysis +
  current_price :: fl
  volatility :: fl

definition iloc_last :: "'a list \<Rightarrow> error + 'a" where
  "iloc_last xs = (if xs = [] then Inl IndexError else Inr (last xs))"

definition analyze_latest :: "row \<Rightarrow> result" where
  "analyze_latest latest =
     analysis.extend (analyze_single_stock latest)
       (result.fields (Close latest) (Volatility latest))"

fun analyze_trends ::
  "(string \<times> row list) list \<Rightarrow> (string \<rightharpoonup> result) \<Rightarrow> error + (string \<rightharpoonup> result)" where
  "analyze_trends [] analysis_results = Inr analysis_results"
| "analyze_trends ((symbol, data) # rest) analysis_results =
     (case iloc_last data of
        Inl e \<Rightarrow> Inl e
      | Inr latest \<Rightarrow> analyze_trends rest (analysis_results(symbol \<mapsto> analyze_latest latest)))"

section \<open>pandas column operations\<close>

text \<open>
  The operations of pandas that the Cleaner and the Indicator Engine call, on one column
  (a list of cells in date order), with the defaults the source leaves in place.
\<close>

text \<open>\<^verbatim>\<open>fillna(method='ffill')\<close>: a NaN takes the nearest earlier value that is not NaN.\<close>

fun ffill_from :: "fl \<Rightarrow> fl list \<Rightarrow> fl list" where
  "ffill_from prev [] = []"
| "ffill_from prev (x # xs) =
     (if x = NaN then prev # ffill_from prev xs else x # ffill_from x xs)"

definition ffill :: "fl list \<Rightarrow> fl list" where
  "ffill xs = ffill_from NaN xs"

text \<open>\<^verbatim>\<open>fillna(method='bfill')\<close>: a NaN takes the nearest later value that is not NaN.\<close>

fun bfill :: "fl list \<Rightarrow> fl list" where
  "bfill [] = []"
| "bfill (x # xs) =
     (let r = bfill xs
      in (if x = NaN then (case r of [] \<Rightarrow> NaN | y # _ \<Rightarrow> y) else x) # r)"

text \<open>\<^verbatim>\<open>shift(1)\<close>: every value one place later, NaN in front.\<close>

definition shift :: "fl list \<Rightarrow> fl list" where
  "shift xs = (if xs = [] then [] else NaN # butlast xs)"

text \<open>\<^verbatim>\<open>diff()\<close>\<close>

definition diff :: "fl list \<Rightarrow> fl list" where
  "diff xs = map2 fsub xs (shift xs)"

text \<open>
  \<^verbatim>\<open>pct_change()\<close> with its default \<^verbatim>\<open>fill_method='pad'\<close>: the column is forward
  filled, then divided by its shift, minus one.
\<close>

definition pct_change :: "fl list \<Rightarrow> fl list" where
  "pct_change xs = (let d = ffill xs in map2 (\<lambda>a b. fsub (fdiv a b) (Fin 1)) d (shift d))"

text \<open>\<^verbatim>\<open>s.where(cond, other)\<close>: the value where the condition holds, \<^verbatim>\<open>other\<close> elsewhere.\<close>

definition where_else :: "(fl \<Rightarrow> bool) \<Rightarrow> fl \<Rightarrow> fl list \<Rightarrow> fl list" where
  "where_else cond other xs = map (\<lambda>x. if cond x then x else other) xs"

text \<open>
  Window functions first turn the infinities into NaN, and see a column of numbers and
  gaps.
\<close>

definition prep_values :: "fl list \<Rightarrow> real option list" where
  "prep_values xs = map (\<lambda>x. case x of Fin r \<Rightarrow> Some r | _ \<Rightarrow> None) xs"

definition of_opt :: "real option \<Rightarrow> fl" where
  "of_opt v = (case v of Some r \<Rightarrow> Fin r | None \<Rightarrow> NaN)"

definition mean :: "real list \<Rightarrow> real" where
  "mean vs = sum_list vs / real (length vs)"

text \<open>The sample standard deviation (\<^verbatim>\<open>ddof=1\<close>).\<close>

definition std :: "real list \<Rightarrow> real" where
  "std vs = sqrt (sum_list (map (\<lambda>v. (v - mean vs)\<^sup>2) vs) / (real (length vs) - 1))"

text \<open>
  The statistic of the window of \<open>w\<close> cells that ends at index \<open>t\<close>. With the default
  \<^verbatim>\<open>min_periods = window\<close> it is NaN unless the window lies inside the column and
  holds \<open>w\<close> numbers.
\<close>

definition window_stat :: "(real list \<Rightarrow> real) \<Rightarrow> nat \<Rightarrow> real option list \<Rightarrow> nat \<Rightarrow> fl" where
  "window_stat f w vals t =
     (if 0 < w \<and> w \<le> t + 1 \<and> t < length vals
      then (case those (take w (drop (t + 1 - w) vals)) of
              Some vs \<Rightarrow> Fin (f vs)
            | None \<Rightarrow> NaN)
      else NaN)"

text \<open>\<^verbatim>\<open>rolling(window=w).mean()\<close> and \<^verbatim>\<open>.std()\<close>: the window ends at the current bar.\<close>

definition rolling :: "nat \<Rightarrow> (real list \<Rightarrow> real) \<Rightarrow> fl list \<Rightarrow> fl list" where
  "rolling w f xs = map (window_stat f w (prep_values xs)) [0..<length xs]"

text \<open>
  \<^verbatim>\<open>rolling(window=w, center=True)\<close>: the window that ends \<open>(w - 1) div 2\<close> bars after
  the current one.
\<close>

definition rolling_center :: "nat \<Rightarrow> (real list \<Rightarrow> real) \<Rightarrow> fl list \<Rightarrow> fl list" where
  "rolling_center w f xs =
     map (\<lambda>t. window_stat f w (prep_values xs) (t + (w - 1) div 2)) [0..<length xs]"

text \<open>
  \<^verbatim>\<open>ewm(span=s).mean()\<close> with the defaults \<^verbatim>\<open>adjust=True\<close>, \<^verbatim>\<open>ignore_na=False\<close>,
  \<^verbatim>\<open>min_periods=0\<close>. pandas keeps the running average \<^verbatim>\<open>weighted\<close> and the weight
  \<^verbatim>\<open>old_wt\<close> it carries; one step of its loop over the column:
\<close>

fun ewm_step :: "real \<Rightarrow> real option \<times> real \<Rightarrow> real option \<Rightarrow> real option \<times> real" where
  "ewm_step alpha (None, old_wt) cur = (cur, old_wt)"
| "ewm_step alpha (Some weighted, old_wt) None = (Some weighted, old_wt * (1 - alpha))"
| "ewm_step alpha (Some weighted, old_wt) (Some cur) =
     (let old_wt = old_wt * (1 - alpha);
          weighted = (if weighted \<noteq> cur
                      then (old_wt * weighted + 1 * cur) / (old_wt + 1)
                      else weighted)
      in (Some weighted, old_wt + 1))"

fun ewm_scan :: "real \<Rightarrow> real option \<times> real \<Rightarrow> real option list \<Rightarrow> real option list" where
  "ewm_scan alpha st [] = []"
| "ewm_scan alpha st (cur # rest) =
     (let st' = ewm_step alpha st cur in fst st' # ewm_scan alpha st' rest)"

definition ewm_mean :: "nat \<Rightarrow> fl list \<Rightarrow> fl list" where
  "ewm_mean s xs =
     (let alpha = 2 / (real s + 1) in
      case prep_values xs of
        [] \<Rightarrow> []
      | v # rest \<Rightarrow> map of_opt (v # ewm_scan alpha (v, 1) rest))"

section \<open>Cleaner\<close>

text \<open>Writing a column of a frame: the cells of the bars, in order.\<close>

definition set_column :: "((fl \<Rightarrow> fl) \<Rightarrow> bar \<Rightarrow> bar) \<Rightarrow> fl list \<Rightarrow> bar list \<Rightarrow> bar list" where
  "set_column upd vs data = map2 (\<lambda>b v. upd (\<lambda>_. v) b) data vs"

text \<open>\<^verbatim>\<open>DataFrame.fillna\<close> fills every column on its own; the index (the dates) stays.\<close>

definition fillna :: "(fl list \<Rightarrow> fl list) \<Rightarrow> bar list \<Rightarrow> bar list" where
  "fillna fill data =
     set_column Volume_update (fill (map Volume data))
       (set_column Close_update (fill (map Close data))
         (set_column Low_update (fill (map Low data))
           (set_column High_update (fill (map High data))
             (set_column Open_update (fill (map Open data)) data))))"

text \<open>\<^verbatim>\<open>price_changes > 0.5\<close> on \<^verbatim>\<open>pct_change().abs()\<close>\<close>

definition outliers :: "fl list \<Rightarrow> bool list" where
  "outliers closes = map (\<lambda>p. fgt p (Fin (1 / 2))) (map fabs (pct_change closes))"

text \<open>\<^verbatim>\<open>s.loc[mask] = new\<close>: the new value where the mask is set.\<close>

definition loc_assign :: "bool list \<Rightarrow> fl list \<Rightarrow> fl list \<Rightarrow> fl list" where
  "loc_assign flags old new = map (\<lambda>(m, x, y). if m then y else x) (zip flags (zip old new))"

text \<open>The body of the loop of \<^verbatim>\<open>clean_and_preprocess_data\<close>, for one symbol's frame.\<close>

definition clean_frame :: "bar list \<Rightarrow> bar list" where
  "clean_frame data =
     (let data_cleaned = fillna bfill (fillna ffill data);
          closes = map Close data_cleaned;
          flags = outliers closes
      in if 0 < length (filter id flags)
         then set_column Close_update
                (loc_assign flags closes (rolling_center 3 mean closes)) data_cleaned
         else data_cleaned)"

definition clean_and_preprocess_data :: "(string \<times> bar list) list \<Rightarrow> (string \<times> bar list) list" where
  "clean_and_preprocess_data stock_data = map (\<lambda>(symbol, data). (symbol, clean_frame data)) stock_data"

section \<open>Indicator Engine\<close>

definition ma_column :: "nat \<Rightarrow> fl list \<Rightarrow> fl list" where
  "ma_column w close = rolling w mean close"

definition avg_gain :: "fl list \<Rightarrow> fl list" where
  "avg_gain close = rolling 14 mean (where_else (\<lambda>d. fgt d (Fin 0)) (Fin 0) (diff close))"

definition avg_loss :: "fl list \<Rightarrow> fl list" where
  "avg_loss close =
     rolling 14 mean (map fneg (where_else (\<lambda>d. flt d (Fin 0)) (Fin 0) (diff close)))"

definition rsi_column :: "fl list \<Rightarrow> fl list" where
  "rsi_column close =
     (let rs = map2 fdiv (avg_gain close) (avg_loss close)
      in map (\<lambda>r. fsub (Fin 100) (fdiv (Fin 100) (fadd (Fin 1) r))) rs)"

definition macd_column :: "fl list \<Rightarrow> fl list" where
  "macd_column close = map2 fsub (ewm_mean 12 close) (ewm_mean 26 close)"

definition macd_signal_column :: "fl list \<Rightarrow> fl list" where
  "macd_signal_column close = ewm_mean 9 (macd_column close)"

definition macd_histogram_column :: "fl list \<Rightarrow> fl list" where
  "macd_histogram_column close = map2 fsub (macd_column close) (macd_signal_column close)"

definition bb_upper_column :: "fl list \<Rightarrow> fl list" where
  "bb_upper_column close =
     map2 fadd (rolling 20 mean close) (map (\<lambda>s. fmul s (Fin 2)) (rolling 20 std close))"

definition bb_lower_column :: "fl list \<Rightarrow> fl list" where
  "bb_lower_column close =
     map2 fsub (rolling 20 mean close) (map (\<lambda>s. fmul s (Fin 2)) (rolling 20 std close))"

definition volatility_column :: "fl list \<Rightarrow> fl list" where
  "volatility_column close = rolling 30 std close"

definition price_change_pct_column :: "fl list \<Rightarrow> fl list" where
  "price_change_pct_column close = map (\<lambda>p. fmul p (Fin 100)) (pct_change close)"

text \<open>
  The body of the loop of \<^verbatim>\<open>calculate_technical_indicators\<close>: the frame with the
  eleven columns appended.
\<close>

definition indicator_row :: "bar list \<Rightarrow> nat \<Rightarrow> row" where
  "indicator_row data t =
     (let close = map Close data in
      bar.extend (data ! t)
        (row.fields
          (ma_column 50 close ! t) (ma_column 200 close ! t)
          (rsi_column close ! t)
          (macd_column close ! t) (macd_signal_column close ! t) (macd_histogram_column close ! t)
          (ma_column 20 close ! t) (bb_upper_column close ! t) (bb_lower_column close ! t)
          (volatility_column close ! t)
          (price_change_pct_column close ! t)))"

definition calculate_technical_indicators :: "bar list \<Rightarrow> row list" where
  "calculate_technical_indicators data = map (indicator_row data) [0..<length data]"

text \<open>
  \<^verbatim>\<open>run_complete_analysis\<close> after the fetch, up to the Analysis Result: clean, compute
  the indicators, analyse.
\<close>

definition analysis_pipeline :: "(string \<times> bar list) list \<Rightarrow> error + (string \<rightharpoonup> result)" where
  "analysis_pipeline stock_data =
     analyze_trends
       (map (\<lambda>(symbol, data). (symbol, calculate_technical_indicators data))
          (clean_and_preprocess_data stock_data))
       Map.empty"

section \<open>Reference tables and sample inputs\<close>

text \<open>
  The contribution tables as the specification words them (section 4.3), to compare the
  string matching of \<^verbatim>\<open>_calculate_composite_score\<close> with.
\<close>

definition ma_contribution :: "(string \<times> int) list" where
  "ma_contribution =
     [(''Strong Bullish'', 2), (''Bullish'', 1), (''Strong Bearish'', - 2), (''Bearish'', - 1)]"

definition rsi_contribution :: "(string \<times> int) list" where
  "rsi_contribution = [(''Overbought'', - 1), (''Oversold'', 1), (''Neutral'', 0)]"

definition macd_contribution :: "(string \<times> int) list" where
  "macd_contribution = [(''Bullish'', 1), (''Bearish'', - 1)]"

text \<open>A latest row without enough history behind it: every indicator is NaN.\<close>

definition nan_row :: row where
  "nan_row =
     \<lparr>Date = 0, Open = Fin 10, High = Fin 12, Low = Fin 9, Close = Fin 11, Volume = Fin 1000,
      MA_50 = NaN, MA_200 = NaN, RSI = NaN, MACD = NaN, MACD_Signal = NaN,
      MACD_Histogram = NaN, BB_Middle = NaN, BB_Upper = NaN, BB_Lower = NaN,
      Volatility = NaN, Price_Change_Pct = NaN\<rparr>"

text \<open>The frame after the two fills of the Cleaner, before the outlier step.\<close>

definition filled :: "bar list \<Rightarrow> bar list" where
  "filled data = fillna bfill (fillna ffill data)"

text \<open>A frame with no missing cell.\<close>

definition no_missing :: "bar list \<Rightarrow> bool" where
  "no_missing data =
     list_all (\<lambda>b. Open b \<noteq> NaN \<and> High b \<noteq> NaN \<and> Low b \<noteq> NaN \<and> Close b \<noteq> NaN
                  \<and> Volume b \<noteq> NaN) data"

text \<open>
  A close column with no single-step relative move above 50 percent, in the arithmetic of
  the code: \<^verbatim>\<open>abs(cur / prev - 1) > 0.5\<close> is false for every pair of neighbours.
\<close>

definition no_jump :: "fl list \<Rightarrow> bool" where
  "no_jump closes =
     list_all (\<lambda>(prev, cur). \<not> fgt (fabs (fsub (fdiv cur prev) (Fin 1))) (Fin (1 / 2)))
       (zip closes (tl closes))"

text \<open>Sample frames: a bar with all prices equal, and short series built from it.\<close>

definition mk_bar :: "nat \<Rightarrow> real \<Rightarrow> bar" where
  "mk_bar d c = \<lparr>Date = d, Open = Fin c, High = Fin c, Low = Fin c, Close = Fin c, Volume = Fin 1000\<rparr>"

definition spike_last :: "bar list" where
  "spike_last = [mk_bar 0 100, mk_bar 1 101, mk_bar 2 102, mk_bar 3 180]"

definition steady :: "bar list" where
  "steady = [mk_bar 0 100, mk_bar 1 120, mk_bar 2 90, mk_bar 3 95]"

definition gappy :: "bar list" where
  "gappy =
     [\<lparr>Date = 0, Open = NaN, High = Fin 12, Low = Fin 9, Close = Fin 10, Volume = Fin 500\<rparr>,
      \<lparr>Date = 1, Open = Fin 11, High = NaN, Low = Fin 10, Close = NaN, Volume = Fin 600\<rparr>,
      \<lparr>Date = 2, Open = Fin 12, High = Fin 14, Low = NaN, Close = Fin 30, Volume = NaN\<rparr>]"

text \<open>
  The gain and the loss of bar \<open>k\<close> of a finite close series (\<open>max(delta, 0)\<close> and
  \<open>max(-delta, 0)\<close>; the first bar has no delta and counts as 0), and two 15-bar frames.
\<close>

definition up :: "real list \<Rightarrow> nat \<Rightarrow> real" where
  "up rs k = (if k = 0 then 0 else max (rs ! k - rs ! (k - 1)) 0)"

definition down :: "real list \<Rightarrow> nat \<Rightarrow> real" where
  "down rs k = (if k = 0 then 0 else max (rs ! (k - 1) - rs ! k) 0)"

definition flat15 :: "bar list" where
  "flat15 = map (\<lambda>d. mk_bar d 100) [0..<15]"

definition rising15 :: "bar list" where
  "rising15 = map (\<lambda>d. mk_bar d (100 + real d)) [0..<15]"

text \<open>
  The EMA as the specification words it (section 4.2): seeded by the first close, then
  \<open>EMA[t] = \<alpha> * close[t] + (1 - \<alpha>) * EMA[t-1]\<close> with \<open>\<alpha> = 2 / (s + 1)\<close>.
\<close>

fun ema_rec :: "real \<Rightarrow> real \<Rightarrow> real list \<Rightarrow> real list" where
  "ema_rec a prev [] = []"
| "ema_rec a prev (x # xs) = (let e = a * x + (1 - a) * prev in e # ema_rec a e xs)"

definition spec_ema :: "nat \<Rightarrow> real list \<Rightarrow> real list" where
  "spec_ema s xs = (case xs of [] \<Rightarrow> [] | x # rest \<Rightarrow> x # ema_rec (2 / (real s + 1)) x rest)"

text \<open>
  The same recurrence with the factor of bar \<open>t\<close> corrected for the short history,
  \<open>\<alpha>\<^sub>t = \<alpha> / (1 - (1 - \<alpha>) ^ (t + 1))\<close>, to compare \<^verbatim>\<open>ewm(span=s).mean()\<close> with.
\<close>

fun adjusted_ema_rec :: "real \<Rightarrow> nat \<Rightarrow> real \<Rightarrow> real list \<Rightarrow> real list" where
  "adjusted_ema_rec a t prev [] = []"
| "adjusted_ema_rec a t prev (x # xs) =
     (let a_t = a / (1 - (1 - a) ^ (t + 1));
          e = a_t * x + (1 - a_t) * prev
      in e # adjusted_ema_rec a (t + 1) e xs)"

definition adjusted_ema :: "nat \<Rightarrow> real list \<Rightarrow> real list" where
  "adjusted_ema s xs =
     (case xs of [] \<Rightarrow> [] | x # rest \<Rightarrow> x # adjusted_ema_rec (2 / (real s + 1)) 1 x rest)"

text \<open>Two more sample frames: two bars, and ten flat bars (fewer than every window).\<close>

definition two_bars :: "bar list" where
  "two_bars = [mk_bar 0 100, mk_bar 1 110]"

definition ten_bars :: "bar list" where
  "ten_bars = map (\<lambda>d. mk_bar d 100) [0..<10]"

section \<open>Properties of the evaluator and the mapper\<close>

lemma fgt_NaN_right [simp]: "fgt a NaN = False"
  by (cases a) simp_all

lemma get_recommendation_table:
  "get_recommendation 3 = ''Strong Buy''"
  "get_recommendation 2 = ''Strong Buy''"
  "get_recommendation 1 = ''Buy''"
  "get_recommendation 0 = ''Hold''"
  "get_recommendation (- 1) = ''Sell''"
  "get_recommendation (- 2) = ''Strong Sell''"
  "get_recommendation (- 3) = ''Strong Sell''"
  by (simp_all add: get_recommendation_def recommendations_def)

lemma str_in_simps:
  "str_in ''Bullish'' ''Strong Bullish''" "str_in ''Strong'' ''Strong Bullish''"
  "str_in ''Bullish'' ''Bullish''" "\<not> str_in ''Strong'' ''Bullish''"
  "\<not> str_in ''Bullish'' ''Strong Bearish''" "str_in ''Bearish'' ''Strong Bearish''"
  "str_in ''Strong'' ''Strong Bearish''"
  "\<not> str_in ''Bullish'' ''Bearish''" "str_in ''Bearish'' ''Bearish''"
  "\<not> str_in ''Strong'' ''Bearish''"
  by simp_all

lemma ma_score_table: "(m, a) \<in> set ma_contribution \<Longrightarrow> ma_score m = a"
  by (auto simp: ma_contribution_def ma_score_def str_in_simps simp del: str_in.simps)

lemma rsi_score_table: "(r, b) \<in> set rsi_contribution \<Longrightarrow> rsi_score r = b"
  by (auto simp: rsi_contribution_def rsi_score_def)

lemma macd_score_table: "(d, c) \<in> set macd_contribution \<Longrightarrow> macd_score d = c"
  by (auto simp: macd_contribution_def macd_score_def)

lemma score_range:
  "- 3 \<le> calculate_composite_score m r d \<and> calculate_composite_score m r d \<le> 3"
  by (simp add: calculate_composite_score_def Let_def)

lemma analyze_single_stock_unfold:
  "analyze_single_stock x =
     \<lparr>ma_signal = get_ma_signal x, rsi_value = RSI x, rsi_signal = get_rsi_signal (RSI x),
      macd_signal = get_macd_signal x, bb_signal = get_bb_signal x,
      score = calculate_composite_score (get_ma_signal x) (get_rsi_signal (RSI x))
                (get_macd_signal x),
      recommendation = get_recommendation
        (calculate_composite_score (get_ma_signal x) (get_rsi_signal (RSI x))
           (get_macd_signal x))\<rparr>"
  by (simp add: analyze_single_stock_def Let_def)

lemma score_analyze:
  "score (analyze_single_stock x) =
     calculate_composite_score (get_ma_signal x) (get_rsi_signal (RSI x)) (get_macd_signal x)"
  by (simp add: analyze_single_stock_unfold)

lemma signals_ignore_bb:
  "get_ma_signal (x\<lparr>BB_Middle := bm, BB_Upper := bu, BB_Lower := bl\<rparr>) = get_ma_signal x"
  "get_macd_signal (x\<lparr>BB_Middle := bm, BB_Upper := bu, BB_Lower := bl\<rparr>) = get_macd_signal x"
  by (simp_all add: get_ma_signal_def get_macd_signal_def)

lemma score_bearish_neutral_bearish:
  "calculate_composite_score ''Bearish'' ''Neutral'' ''Bearish'' = - 2"
  by (simp add: calculate_composite_score_def ma_score_def rsi_score_def macd_score_def
      str_in_simps del: str_in.simps)

lemma get_rsi_signal_NaN: "get_rsi_signal NaN = ''Neutral''"
  by (simp add: get_rsi_signal_def flt_def)

lemma get_ma_signal_NaN: "MA_50 x = NaN \<Longrightarrow> get_ma_signal x = ''Bearish''"
  by (simp add: get_ma_signal_def flt_def)

lemma get_macd_signal_NaN: "MACD_Signal x = NaN \<Longrightarrow> get_macd_signal x = ''Bearish''"
  by (simp add: get_macd_signal_def)

text \<open>
  Claim C2. On a latest row whose \<open>MA_50\<close>, \<open>MA_200\<close>, \<open>RSI\<close>, \<open>MACD\<close> and
  \<open>MACD_Signal\<close> are all NaN, every comparison against them is false, and the evaluator
  returns a complete Signal Set all the same: MA signal "Bearish", RSI signal "Neutral",
  MACD signal "Bearish", composite score -2 and recommendation "Strong Sell". The evaluator
  has no error branch: it neither raises nor refuses.
\<close>

theorem undefined_row_still_scored:
  "MA_50 x = NaN \<Longrightarrow> MA_200 x = NaN \<Longrightarrow> RSI x = NaN \<Longrightarrow> MACD x = NaN
   \<Longrightarrow> MACD_Signal x = NaN
   \<Longrightarrow> analyze_single_stock x =
       \<lparr>ma_signal = ''Bearish'', rsi_value = NaN, rsi_signal = ''Neutral'',
        macd_signal = ''Bearish'', bb_signal = get_bb_signal x, score = - 2,
        recommendation = ''Strong Sell''\<rparr>"
  by (simp only: analyze_single_stock_unfold get_ma_signal_NaN get_macd_signal_NaN
      get_rsi_signal_NaN score_bearish_neutral_bearish get_recommendation_table)

theorem undefined_row_still_scored_witness:
  "analyze_single_stock nan_row =
       \<lparr>ma_signal = ''Bearish'', rsi_value = NaN, rsi_signal = ''Neutral'',
        macd_signal = ''Bearish'', bb_signal = ''Within normal range'', score = - 2,
        recommendation = ''Strong Sell''\<rparr>"
  using undefined_row_still_scored [of nan_row]
  by (simp add: nan_row_def get_bb_signal_def flt_def)

text \<open>
  Claim C5. For every combination of the defined MA, RSI and MACD signal categories the
  composite score is the sum of the three contributions of the tables (Strong Bullish +2,
  Bullish +1, Strong Bearish -2, Bearish -1; Overbought -1, Oversold +1, Neutral 0;
  MACD Bullish +1, Bearish -1) clamped to [-3, 3]; whatever the three signal strings are,
  the score is an integer between -3 and 3; and the score of a row does not change when
  its Bollinger columns do.
\<close>

theorem composite_score_clamped_sum:
  "((m, a) \<in> set ma_contribution \<and> (r, b) \<in> set rsi_contribution
      \<and> (d, c) \<in> set macd_contribution
      \<longrightarrow> calculate_composite_score m r d = max (- 3) (min 3 (a + b + c)))
   \<and> - 3 \<le> calculate_composite_score m' r' d' \<and> calculate_composite_score m' r' d' \<le> 3
   \<and> score (analyze_single_stock (x\<lparr>BB_Middle := bm, BB_Upper := bu, BB_Lower := bl\<rparr>))
       = score (analyze_single_stock x)"
proof (intro conjI impI)
  assume "(m, a) \<in> set ma_contribution \<and> (r, b) \<in> set rsi_contribution
      \<and> (d, c) \<in> set macd_contribution"
  then have "ma_score m = a" "rsi_score r = b" "macd_score d = c"
    by (simp_all add: ma_score_table rsi_score_table macd_score_table)
  then show "calculate_composite_score m r d = max (- 3) (min 3 (a + b + c))"
    by (simp add: calculate_composite_score_def Let_def)
next
  show "- 3 \<le> calculate_composite_score m' r' d'" "calculate_composite_score m' r' d' \<le> 3"
    using score_range by blast+
next
  show "score (analyze_single_stock (x\<lparr>BB_Middle := bm, BB_Upper := bu, BB_Lower := bl\<rparr>))
       = score (analyze_single_stock x)"
    by (simp only: score_analyze signals_ignore_bb) simp
qed

theorem composite_score_clamped_sum_witness:
  "calculate_composite_score ''Strong Bullish'' ''Oversold'' ''Bullish'' = 3"
  using composite_score_clamped_sum [of "''Strong Bullish''" 2 "''Oversold''" 1 "''Bullish''" 1]
  by (simp add: ma_contribution_def rsi_contribution_def macd_contribution_def)

text \<open>
  Claim C6. The recommendation is a function of the integer score alone, given by the
  table 3 and 2: Strong Buy, 1: Buy, 0: Hold, -1: Sell, -2 and -3: Strong Sell; every
  integer score outside [-3, 3] maps to "Hold".
\<close>

theorem recommendation_table:
  "get_recommendation 3 = ''Strong Buy'' \<and> get_recommendation 2 = ''Strong Buy''
   \<and> get_recommendation 1 = ''Buy'' \<and> get_recommendation 0 = ''Hold''
   \<and> get_recommendation (- 1) = ''Sell'' \<and> get_recommendation (- 2) = ''Strong Sell''
   \<and> get_recommendation (- 3) = ''Strong Sell''
   \<and> (s < - 3 \<or> 3 < s \<longrightarrow> get_recommendation s = ''Hold'')"
  by (auto simp: get_recommendation_def recommendations_def)

theorem recommendation_table_witness:
  "get_recommendation 7 = ''Hold'' \<and> get_recommendation (- 4) = ''Hold''"
  using recommendation_table [of 7] recommendation_table [of "- 4"] by simp

section \<open>Properties of the Cleaner\<close>

lemma length_ffill_from [simp]: "length (ffill_from p xs) = length xs"
  by (induction xs arbitrary: p) auto

lemma length_ffill [simp]: "length (ffill xs) = length xs"
  by (simp add: ffill_def)

lemma length_bfill [simp]: "length (bfill xs) = length xs"
  by (induction xs) (auto simp: Let_def)

lemma length_shift [simp]: "length (shift xs) = length xs"
  by (simp add: shift_def)

lemma length_pct_change [simp]: "length (pct_change xs) = length xs"
  by (simp add: pct_change_def Let_def)

lemma length_outliers [simp]: "length (outliers xs) = length xs"
  by (simp add: outliers_def)

lemma length_rolling [simp]: "length (rolling w f xs) = length xs"
  by (simp add: rolling_def)

lemma length_rolling_center [simp]: "length (rolling_center w f xs) = length xs"
  by (simp add: rolling_center_def)

lemma length_loc_assign [simp]:
  "length (loc_assign flags old new) = min (length flags) (min (length old) (length new))"
  by (simp add: loc_assign_def)

lemma length_set_column [simp]:
  "length (set_column upd vs data) = min (length data) (length vs)"
  by (simp add: set_column_def)

lemma ffill_from_present: "t < length xs \<Longrightarrow> xs ! t \<noteq> NaN \<Longrightarrow> ffill_from p xs ! t = xs ! t"
  by (induction xs arbitrary: p t) (auto simp: nth_Cons split: nat.splits)

lemma ffill_present: "t < length xs \<Longrightarrow> xs ! t \<noteq> NaN \<Longrightarrow> ffill xs ! t = xs ! t"
  by (simp add: ffill_def ffill_from_present)

lemma bfill_present: "t < length xs \<Longrightarrow> xs ! t \<noteq> NaN \<Longrightarrow> bfill xs ! t = xs ! t"
  by (induction xs arbitrary: t) (auto simp: nth_Cons Let_def split: nat.splits)

lemma ffill_from_id: "NaN \<notin> set xs \<Longrightarrow> ffill_from p xs = xs"
  by (induction xs arbitrary: p) auto

lemma ffill_id: "NaN \<notin> set xs \<Longrightarrow> ffill xs = xs"
  by (simp add: ffill_def ffill_from_id)

lemma bfill_id: "NaN \<notin> set xs \<Longrightarrow> bfill xs = xs"
  by (induction xs) (auto simp: Let_def)

lemma map_set_column_other:
  "length vs = length data \<Longrightarrow> (\<And>f b. g (upd f b) = g b)
   \<Longrightarrow> map g (set_column upd vs data) = map g data"
  by (induction data vs rule: list_induct2') (auto simp: set_column_def)

lemma map_set_column_same:
  "length vs = length data \<Longrightarrow> (\<And>f b. g (upd f b) = f (g b))
   \<Longrightarrow> map g (set_column upd vs data) = vs"
  by (induction data vs rule: list_induct2') (auto simp: set_column_def)

lemma set_column_id:
  "(\<And>b. upd (\<lambda>_. g b) b = b) \<Longrightarrow> set_column upd (map g data) data = data"
  by (induction data) (auto simp: set_column_def)

lemma fillna_columns:
  assumes "\<And>xs. length (fill xs) = length xs"
  shows "length (fillna fill data) = length data"
    and "map Date (fillna fill data) = map Date data"
    and "map Open (fillna fill data) = fill (map Open data)"
    and "map High (fillna fill data) = fill (map High data)"
    and "map Low (fillna fill data) = fill (map Low data)"
    and "map Close (fillna fill data) = fill (map Close data)"
    and "map Volume (fillna fill data) = fill (map Volume data)"
  by (simp_all add: fillna_def assms map_set_column_other map_set_column_same)

lemma fillna_id:
  assumes "\<And>xs. NaN \<notin> set xs \<Longrightarrow> fill xs = xs"
    and "\<forall>b \<in> set data. Open b \<noteq> NaN \<and> High b \<noteq> NaN \<and> Low b \<noteq> NaN \<and> Close b \<noteq> NaN \<and> Volume b \<noteq> NaN"
  shows "fillna fill data = data"
proof -
  have "fill (map Open data) = map Open data" "fill (map High data) = map High data"
    "fill (map Low data) = map Low data" "fill (map Close data) = map Close data"
    "fill (map Volume data) = map Volume data"
    using assms(2) by (force intro!: assms(1))+
  then show ?thesis by (simp add: fillna_def set_column_id)
qed

lemma filled_columns:
  "length (filled data) = length data"
  "map Date (filled data) = map Date data"
  "map Open (filled data) = bfill (ffill (map Open data))"
  "map High (filled data) = bfill (ffill (map High data))"
  "map Low (filled data) = bfill (ffill (map Low data))"
  "map Close (filled data) = bfill (ffill (map Close data))"
  "map Volume (filled data) = bfill (ffill (map Volume data))"
  by (simp_all add: filled_def fillna_columns)

lemma clean_frame_filled:
  "clean_frame data =
     (let closes = map Close (filled data); flags = outliers closes
      in if 0 < length (filter id flags)
         then set_column Close_update
                (loc_assign flags closes (rolling_center 3 mean closes)) (filled data)
         else filled data)"
  by (simp add: clean_frame_def filled_def Let_def)

lemma clean_frame_columns:
  "length (clean_frame data) = length data"
  "map Date (clean_frame data) = map Date data"
  "map Open (clean_frame data) = bfill (ffill (map Open data))"
  "map High (clean_frame data) = bfill (ffill (map High data))"
  "map Low (clean_frame data) = bfill (ffill (map Low data))"
  "map Volume (clean_frame data) = bfill (ffill (map Volume data))"
  by (simp_all add: clean_frame_filled Let_def filled_columns map_set_column_other)

lemma clean_frame_close:
  "map Close (clean_frame data) =
     (let closes = bfill (ffill (map Close data)) in
      loc_assign (outliers closes) closes (rolling_center 3 mean closes))"
proof -
  have id: "loc_assign flags old new = old"
    if "length flags = length old" "length new = length old" "filter id flags = []"
    for flags old new
    using that
  proof (induction flags arbitrary: old new)
    case Nil then show ?case by (simp add: loc_assign_def)
  next
    case (Cons m ms)
    then obtain x xs y ys where "old = x # xs" "new = y # ys"
      by (metis length_Suc_conv)
    with Cons show ?case by (auto simp: loc_assign_def split: if_splits)
  qed
  show ?thesis
    by (simp add: clean_frame_filled Let_def filled_columns map_set_column_same id)
qed

lemma bfill_ffill_present:
  "t < length xs \<Longrightarrow> xs ! t \<noteq> NaN \<Longrightarrow> bfill (ffill xs) ! t = xs ! t"
  by (simp add: bfill_present ffill_present)

text \<open>
  Claim C8. The Cleaner's output has the same bar count and the same dates as its input;
  its open, high, low and volume columns are the input's columns after the forward and
  the backward fill, so every open, high, low and volume value that is present in the
  input is unchanged: the outlier smoothing writes close values only.
\<close>

theorem cleaner_frame:
  "length (clean_frame data) = length data
   \<and> map Date (clean_frame data) = map Date data
   \<and> map Open (clean_frame data) = bfill (ffill (map Open data))
   \<and> map High (clean_frame data) = bfill (ffill (map High data))
   \<and> map Low (clean_frame data) = bfill (ffill (map Low data))
   \<and> map Volume (clean_frame data) = bfill (ffill (map Volume data))
   \<and> (\<forall>t < length data.
        (Open (data ! t) \<noteq> NaN \<longrightarrow> Open (clean_frame data ! t) = Open (data ! t))
      \<and> (High (data ! t) \<noteq> NaN \<longrightarrow> High (clean_frame data ! t) = High (data ! t))
      \<and> (Low (data ! t) \<noteq> NaN \<longrightarrow> Low (clean_frame data ! t) = Low (data ! t))
      \<and> (Volume (data ! t) \<noteq> NaN \<longrightarrow> Volume (clean_frame data ! t) = Volume (data ! t)))"
proof -
  have cell: "g (clean_frame data ! t) = g (data ! t)"
    if "map g (clean_frame data) = bfill (ffill (map g data))" "t < length data" "g (data ! t) \<noteq> NaN"
    for g :: "bar \<Rightarrow> fl" and t
  proof -
    have "g (clean_frame data ! t) = map g (clean_frame data) ! t"
      using that(2) by (simp add: clean_frame_columns(1))
    also have "\<dots> = map g data ! t"
      using that by (simp add: bfill_ffill_present)
    finally show ?thesis using that(2) by simp
  qed
  show ?thesis
    using clean_frame_columns [of data] by (auto intro: cell)
qed

theorem cleaner_frame_witness:
  "length (clean_frame gappy) = 3 \<and> map Date (clean_frame gappy) = [0, 1, 2]
   \<and> Open (clean_frame gappy ! 1) = Fin 11 \<and> High (clean_frame gappy ! 0) = Fin 12
   \<and> Low (clean_frame gappy ! 1) = Fin 10 \<and> Volume (clean_frame gappy ! 1) = Fin 600"
proof -
  have "(1::nat) < length gappy" "(0::nat) < length gappy"
    "Open (gappy ! 1) \<noteq> NaN" "High (gappy ! 0) \<noteq> NaN" "Low (gappy ! 1) \<noteq> NaN"
    "Volume (gappy ! 1) \<noteq> NaN" "Open (gappy ! 1) = Fin 11" "High (gappy ! 0) = Fin 12"
    "Low (gappy ! 1) = Fin 10" "Volume (gappy ! 1) = Fin 600"
    "length gappy = 3" "map Date gappy = [0, 1, 2]"
    by (simp_all add: gappy_def)
  then show ?thesis using cleaner_frame [of gappy] by metis
qed

lemma shift_nth:
  "t < length xs \<Longrightarrow> shift xs ! t = (case t of 0 \<Rightarrow> NaN | Suc k \<Rightarrow> xs ! k)"
  by (auto simp: shift_def nth_Cons nth_butlast split: nat.splits)

lemma pct_change_nth:
  "t < length xs \<Longrightarrow> pct_change xs ! t =
     (case t of 0 \<Rightarrow> NaN | Suc k \<Rightarrow> fsub (fdiv (ffill xs ! Suc k) (ffill xs ! k)) (Fin 1))"
  by (cases "ffill xs ! t") (auto simp: pct_change_def Let_def shift_nth fsub_def split: nat.splits)

lemma outliers_nth:
  "t < length xs \<Longrightarrow> outliers xs ! t =
     (case t of 0 \<Rightarrow> False
      | Suc k \<Rightarrow> fgt (fabs (fsub (fdiv (ffill xs ! Suc k) (ffill xs ! k)) (Fin 1))) (Fin (1 / 2)))"
  by (auto simp: outliers_def pct_change_nth split: nat.splits)

lemma no_jump_outliers:
  assumes "NaN \<notin> set closes" "no_jump closes"
  shows "filter id (outliers closes) = []"
proof -
  have "\<not> outliers closes ! t" if "t < length closes" for t
  proof (cases t)
    case 0 with that show ?thesis by (simp add: outliers_nth)
  next
    case (Suc k)
    with that have k: "k < length (zip closes (tl closes))" by simp
    have "zip closes (tl closes) ! k = (closes ! k, closes ! Suc k)"
      using k by (simp add: nth_tl)
    with assms(2) k have "\<not> fgt (fabs (fsub (fdiv (closes ! Suc k) (closes ! k)) (Fin 1))) (Fin (1 / 2))"
      unfolding no_jump_def list_all_length by fastforce
    with that Suc show ?thesis by (simp add: outliers_nth ffill_id assms(1))
  qed
  then show ?thesis
    by (auto simp: filter_empty_conv in_set_conv_nth)
qed

lemma clean_frame_id:
  assumes "no_missing data" "no_jump (map Close data)"
  shows "clean_frame data = data"
proof -
  have nm: "\<forall>b \<in> set data. Open b \<noteq> NaN \<and> High b \<noteq> NaN \<and> Low b \<noteq> NaN \<and> Close b \<noteq> NaN \<and> Volume b \<noteq> NaN"
    using assms(1) by (simp add: no_missing_def list_all_iff)
  have f: "filled data = data"
    by (simp add: filled_def fillna_id [OF ffill_id nm] fillna_id [OF bfill_id nm])
  have "NaN \<notin> set (map Close data)" using nm by auto
  then have "filter id (outliers (map Close data)) = []"
    using assms(2) by (rule no_jump_outliers)
  then show ?thesis by (simp add: clean_frame_filled f Let_def)
qed

text \<open>
  Claim C9. On a series with no missing value and no single-step relative close move
  above 50 percent the Cleaner returns the series itself, so applying it twice equals
  applying it once.
\<close>

theorem cleaner_idempotent_on_clean:
  "no_missing data \<Longrightarrow> no_jump (map Close data)
   \<Longrightarrow> clean_frame data = data \<and> clean_frame (clean_frame data) = clean_frame data"
  by (simp add: clean_frame_id)

lemma mk_bar_sel [simp]:
  "Date (mk_bar d c) = d" "Open (mk_bar d c) = Fin c" "High (mk_bar d c) = Fin c"
  "Low (mk_bar d c) = Fin c" "Close (mk_bar d c) = Fin c" "Volume (mk_bar d c) = Fin 1000"
  by (simp_all add: mk_bar_def)

theorem cleaner_idempotent_on_clean_witness:
  "no_missing steady \<and> no_jump (map Close steady)
   \<and> clean_frame steady = steady \<and> clean_frame (clean_frame steady) = clean_frame steady"
proof -
  have a: "no_missing steady" by (simp add: no_missing_def steady_def)
  have b: "no_jump (map Close steady)" by (simp add: no_jump_def steady_def fsub_def)
  show ?thesis using a b cleaner_idempotent_on_clean [OF a b] by simp
qed

lemma length_prep_values [simp]: "length (prep_values xs) = length xs"
  by (simp add: prep_values_def)

lemma rolling_center_last:
  "xs \<noteq> [] \<Longrightarrow> rolling_center 3 f xs ! (length xs - 1) = NaN"
  by (simp add: rolling_center_def window_stat_def)

lemma loc_assign_nth:
  "t < length flags \<Longrightarrow> length old = length flags \<Longrightarrow> length new = length flags
   \<Longrightarrow> loc_assign flags old new ! t = (if flags ! t then new ! t else old ! t)"
  by (simp add: loc_assign_def)

lemma clean_frame_close_nth:
  "t < length data \<Longrightarrow> Close (clean_frame data ! t) =
     (if outliers (map Close (filled data)) ! t
      then rolling_center 3 mean (map Close (filled data)) ! t
      else Close (filled data ! t))"
proof -
  assume t: "t < length data"
  then have "Close (clean_frame data ! t) = map Close (clean_frame data) ! t"
    by (simp add: clean_frame_columns(1))
  also have "\<dots> = (if outliers (map Close (filled data)) ! t
      then rolling_center 3 mean (map Close (filled data)) ! t
      else map Close (filled data) ! t)"
    using t by (simp add: clean_frame_close Let_def loc_assign_nth filled_columns)
  finally show ?thesis using t by (simp add: filled_columns(1))
qed

lemma spike_closes: "map Close spike_last = [Fin 100, Fin 101, Fin 102, Fin 180]"
  by (simp add: spike_last_def)

lemma spike_outliers: "outliers [Fin 100, Fin 101, Fin 102, Fin 180] = [False, False, False, True]"
  by (simp add: outliers_def pct_change_def ffill_def shift_def fsub_def)

lemma spike_center: "rolling_center 3 mean [Fin 100, Fin 101, Fin 102, Fin 180] = [NaN, Fin 101, Fin (383 / 3), NaN]"
  by (simp add: rolling_center_def window_stat_def prep_values_def mean_def upt_rec)

lemma spike_last_cleaned:
  "no_missing spike_last"
  "map Close (clean_frame spike_last) = [Fin 100, Fin 101, Fin 102, NaN]"
  by (simp_all add: no_missing_def spike_last_def clean_frame_close Let_def ffill_def
       spike_outliers loc_assign_def spike_center)

text \<open>
  Claim C10. The first bar of a series is never flagged as an outlier and keeps its
  filled close. When the last bar is flagged, the centered 3-bar mean that replaces its
  close has no full window there, and the cleaned last close is NaN (neither the raw value
  nor a one-sided mean). So cleaning can put a missing close into a series that had no
  missing value.
\<close>

theorem boundary_outliers:
  "(data \<noteq> [] \<longrightarrow> \<not> outliers (map Close (filled data)) ! 0
       \<and> Close (clean_frame data ! 0) = Close (filled data ! 0))
   \<and> (data \<noteq> [] \<and> last (outliers (map Close (filled data)))
       \<longrightarrow> Close (last (clean_frame data)) = NaN)
   \<and> (\<exists>d. no_missing d \<and> NaN \<in> set (map Close (clean_frame d)))"
proof (intro conjI impI)
  assume "data \<noteq> []"
  then have 0: "0 < length data" by simp
  then show "\<not> outliers (map Close (filled data)) ! 0"
    by (simp add: outliers_nth filled_columns(1))
  then show "Close (clean_frame data ! 0) = Close (filled data ! 0)"
    using 0 by (simp add: clean_frame_close_nth)
next
  assume a: "data \<noteq> [] \<and> last (outliers (map Close (filled data)))"
  then have n: "length data - 1 < length data" by (cases data) auto
  have "0 < length (map Close (filled data))" "0 < length (outliers (map Close (filled data)))"
    "0 < length (clean_frame data)"
    using a by (simp_all add: filled_columns(1) clean_frame_columns(1))
  then have ne: "map Close (filled data) \<noteq> []" "outliers (map Close (filled data)) \<noteq> []"
    "clean_frame data \<noteq> []"
    by (simp_all only: length_greater_0_conv not_False_eq_True)
  have "outliers (map Close (filled data)) ! (length data - 1)"
    using a ne(2) by (simp add: last_conv_nth filled_columns(1))
  moreover have "rolling_center 3 mean (map Close (filled data)) ! (length data - 1) = NaN"
    using rolling_center_last [OF ne(1), of mean] by (simp add: filled_columns(1))
  ultimately have "Close (clean_frame data ! (length data - 1)) = NaN"
    using clean_frame_close_nth [OF n] by simp
  then show "Close (last (clean_frame data)) = NaN"
    using ne(3) by (simp add: last_conv_nth clean_frame_columns(1))
next
  show "\<exists>d. no_missing d \<and> NaN \<in> set (map Close (clean_frame d))"
    using spike_last_cleaned by (intro exI [of _ spike_last]) simp
qed

theorem boundary_outliers_witness:
  "Close (last (clean_frame spike_last)) = NaN \<and> \<not> outliers (map Close (filled spike_last)) ! 0"
proof -
  have "map Close (filled spike_last) = [Fin 100, Fin 101, Fin 102, Fin 180]"
    by (simp add: filled_columns spike_closes ffill_def)
  then have "spike_last \<noteq> [] \<and> last (outliers (map Close (filled spike_last)))"
    by (simp add: spike_outliers) (simp add: spike_last_def)
  then show ?thesis using boundary_outliers [of spike_last] by blast
qed

section \<open>Properties of the Indicator Engine\<close>

lemma take_ffill_from: "take n (ffill_from p xs) = ffill_from p (take n xs)"
  by (induction xs arbitrary: p n) (auto simp: take_Cons split: nat.splits)

lemma take_ffill: "take n (ffill xs) = ffill (take n xs)"
  by (simp add: ffill_def take_ffill_from)

lemma take_shift: "take n (shift xs) = shift (take n xs)"
  by (rule nth_equalityI) (auto simp: shift_nth split: nat.splits)

lemma take_map2: "take n (map2 f xs ys) = map2 f (take n xs) (take n ys)"
  by (simp add: take_map take_zip)

lemma take_diff: "take n (diff xs) = diff (take n xs)"
  by (simp add: diff_def take_map2 take_shift)

lemma take_pct_change: "take n (pct_change xs) = pct_change (take n xs)"
  by (simp add: pct_change_def Let_def take_map2 take_shift take_ffill)

lemma take_where_else: "take n (where_else c v xs) = where_else c v (take n xs)"
  by (simp add: where_else_def take_map)

lemma take_prep_values: "take n (prep_values xs) = prep_values (take n xs)"
  by (simp add: prep_values_def take_map)

lemma window_stat_take:
  "t < n \<Longrightarrow> window_stat f w (take n vals) t = window_stat f w vals t"
proof -
  assume t: "t < n"
  have "take w (drop (t + 1 - w) (take n vals)) = take w (drop (t + 1 - w) vals)" if "w \<le> t + 1"
  proof -
    have "w \<le> n - (t + 1 - w)" using t that by simp
    then show ?thesis by (simp add: drop_take min_absorb1)
  qed
  then show ?thesis using t by (auto simp: window_stat_def)
qed

lemma take_rolling: "take n (rolling w f xs) = rolling w f (take n xs)"
  by (rule nth_equalityI) (simp_all add: rolling_def window_stat_take flip: take_prep_values)

lemma take_ewm_scan: "take n (ewm_scan a st xs) = ewm_scan a st (take n xs)"
  by (induction xs arbitrary: st n) (auto simp: take_Cons Let_def split: nat.splits)

lemma length_ewm_scan [simp]: "length (ewm_scan a st xs) = length xs"
  by (induction xs arbitrary: st) (auto simp: Let_def)

lemma length_ewm_mean [simp]: "length (ewm_mean s xs) = length xs"
  by (cases xs) (auto simp: ewm_mean_def prep_values_def Let_def)

lemma take_ewm_mean: "take n (ewm_mean s xs) = ewm_mean s (take n xs)"
proof (cases xs)
  case Nil then show ?thesis by (simp add: ewm_mean_def prep_values_def)
next
  case (Cons x xs')
  then show ?thesis
    by (cases n) (simp_all add: ewm_mean_def prep_values_def Let_def take_map take_ewm_scan)
qed

lemma take_columns:
  "take n (ma_column w c) = ma_column w (take n c)"
  "take n (rsi_column c) = rsi_column (take n c)"
  "take n (macd_column c) = macd_column (take n c)"
  "take n (macd_signal_column c) = macd_signal_column (take n c)"
  "take n (macd_histogram_column c) = macd_histogram_column (take n c)"
  "take n (bb_upper_column c) = bb_upper_column (take n c)"
  "take n (bb_lower_column c) = bb_lower_column (take n c)"
  "take n (volatility_column c) = volatility_column (take n c)"
  "take n (price_change_pct_column c) = price_change_pct_column (take n c)"
  by (simp_all add: ma_column_def rsi_column_def avg_gain_def avg_loss_def macd_column_def
      macd_signal_column_def macd_histogram_column_def bb_upper_column_def bb_lower_column_def
      volatility_column_def price_change_pct_column_def Let_def
      take_map take_zip take_rolling take_ewm_mean take_where_else take_diff take_pct_change)

lemma indicator_row_take:
  assumes "t < n"
  shows "indicator_row (take n data) t = indicator_row data t"
proof -
  have col: "col (take n (map Close data)) ! t = col (map Close data) ! t"
    if "\<And>c. take n (col c) = col (take n c)" for col :: "fl list \<Rightarrow> fl list"
    using assms by (metis that nth_take)
  show ?thesis
    using assms by (simp add: indicator_row_def Let_def take_columns col flip: take_map)
qed

lemma calculate_technical_indicators_take:
  "calculate_technical_indicators (take n data) = take n (calculate_technical_indicators data)"
  by (rule nth_equalityI) (simp_all add: calculate_technical_indicators_def indicator_row_take)

text \<open>
  Claim C7. The Indicator Engine is causal: two series that agree on bars 0..t give the
  same indicator rows (all eleven derived fields) at every index up to t, whatever the
  later bars are and however many there are.
\<close>

theorem indicators_causal:
  "take (Suc t) xs = take (Suc t) ys
   \<Longrightarrow> take (Suc t) (calculate_technical_indicators xs)
       = take (Suc t) (calculate_technical_indicators ys)"
  by (simp flip: calculate_technical_indicators_take)

theorem indicators_causal_witness:
  "take 2 (calculate_technical_indicators steady)
     = take 2 (calculate_technical_indicators [mk_bar 0 100, mk_bar 1 120, mk_bar 2 300])"
proof -
  have h: "take (Suc 1) steady = take (Suc 1) [mk_bar 0 100, mk_bar 1 120, mk_bar 2 300]"
    by (simp add: steady_def)
  show ?thesis
    using indicators_causal [OF h] unfolding Suc_1 .
qed

lemma length_calculate_technical_indicators [simp]:
  "length (calculate_technical_indicators data) = length data"
  by (simp add: calculate_technical_indicators_def)

lemma row_fields:
  assumes "t < length data"
  shows "Close (calculate_technical_indicators data ! t) = Close (data ! t)"
    and "MA_50 (calculate_technical_indicators data ! t) = ma_column 50 (map Close data) ! t"
    and "MA_200 (calculate_technical_indicators data ! t) = ma_column 200 (map Close data) ! t"
    and "RSI (calculate_technical_indicators data ! t) = rsi_column (map Close data) ! t"
    and "MACD (calculate_technical_indicators data ! t) = macd_column (map Close data) ! t"
    and "MACD_Signal (calculate_technical_indicators data ! t) = macd_signal_column (map Close data) ! t"
    and "MACD_Histogram (calculate_technical_indicators data ! t) = macd_histogram_column (map Close data) ! t"
    and "BB_Middle (calculate_technical_indicators data ! t) = ma_column 20 (map Close data) ! t"
    and "BB_Upper (calculate_technical_indicators data ! t) = bb_upper_column (map Close data) ! t"
    and "BB_Lower (calculate_technical_indicators data ! t) = bb_lower_column (map Close data) ! t"
    and "Volatility (calculate_technical_indicators data ! t) = volatility_column (map Close data) ! t"
    and "Price_Change_Pct (calculate_technical_indicators data ! t) = price_change_pct_column (map Close data) ! t"
  using assms
  by (simp_all add: calculate_technical_indicators_def indicator_row_def Let_def
      bar.extend_def row.fields_def bar.defs row.defs)

lemma length_avg [simp]:
  "length (avg_gain c) = length c" "length (avg_loss c) = length c"
  by (simp_all add: avg_gain_def avg_loss_def where_else_def diff_def)

lemma rsi_column_nth:
  "t < length c \<Longrightarrow> rsi_column c ! t =
     fsub (Fin 100) (fdiv (Fin 100) (fadd (Fin 1) (fdiv (avg_gain c ! t) (avg_loss c ! t))))"
  by (simp add: rsi_column_def Let_def)

lemma rsi_saturates:
  "t < length c \<Longrightarrow> avg_loss c ! t = Fin 0 \<Longrightarrow> avg_gain c ! t = Fin g \<Longrightarrow> 0 < g
   \<Longrightarrow> rsi_column c ! t = Fin 100"
  by (simp add: rsi_column_nth fsub_def)

lemma rsi_flat:
  "t < length c \<Longrightarrow> avg_loss c ! t = Fin 0 \<Longrightarrow> avg_gain c ! t = Fin 0
   \<Longrightarrow> rsi_column c ! t = NaN"
  by (simp add: rsi_column_nth fsub_def)

lemma those_map_Some [simp]: "those (map Some xs) = Some xs"
  by (induction xs) auto

lemma prep_values_Fin [simp]: "prep_values (map Fin vs) = map Some vs"
  by (simp add: prep_values_def)

lemma rolling_Fin_nth:
  assumes "0 < w" "w \<le> t + 1" "t < length vs"
  shows "rolling w f (map Fin vs) ! t = Fin (f (take w (drop (t + 1 - w) vs)))"
proof -
  have "take w (drop (t + 1 - w) (map Some vs)) = map Some (take w (drop (t + 1 - w) vs))"
    by (simp add: take_map drop_map)
  then show ?thesis
    using assms by (simp add: rolling_def window_stat_def)
qed

lemma diff_Fin_nth:
  "k < length rs \<Longrightarrow> diff (map Fin rs) ! k =
     (case k of 0 \<Rightarrow> NaN | Suc j \<Rightarrow> Fin (rs ! Suc j - rs ! j))"
  by (auto simp: diff_def shift_nth fsub_def split: nat.splits)

lemma length_diff [simp]: "length (diff xs) = length xs"
  by (simp add: diff_def)

lemma gains_Fin:
  "where_else (\<lambda>d. fgt d (Fin 0)) (Fin 0) (diff (map Fin rs)) = map Fin (map (up rs) [0..<length rs])"
proof (rule nth_equalityI)
  fix k assume "k < length (where_else (\<lambda>d. fgt d (Fin 0)) (Fin 0) (diff (map Fin rs)))"
  then have k: "k < length rs" by (simp add: where_else_def)
  then show "where_else (\<lambda>d. fgt d (Fin 0)) (Fin 0) (diff (map Fin rs)) ! k
           = map Fin (map (up rs) [0..<length rs]) ! k"
    by (cases k) (auto simp: where_else_def diff_Fin_nth up_def)
qed (simp add: where_else_def)

lemma losses_Fin:
  "map fneg (where_else (\<lambda>d. flt d (Fin 0)) (Fin 0) (diff (map Fin rs)))
     = map Fin (map (down rs) [0..<length rs])"
proof (rule nth_equalityI)
  fix k assume "k < length (map fneg (where_else (\<lambda>d. flt d (Fin 0)) (Fin 0) (diff (map Fin rs))))"
  then have k: "k < length rs" by (simp add: where_else_def)
  then show "map fneg (where_else (\<lambda>d. flt d (Fin 0)) (Fin 0) (diff (map Fin rs))) ! k
           = map Fin (map (down rs) [0..<length rs]) ! k"
    by (cases k) (auto simp: where_else_def diff_Fin_nth down_def flt_def)
qed (simp add: where_else_def)

lemma avg_Fin_nth:
  assumes "13 \<le> t" "t < length rs"
  shows "avg_gain (map Fin rs) ! t = Fin (mean (map (up rs) [t - 13..<t + 1]))"
    and "avg_loss (map Fin rs) ! t = Fin (mean (map (down rs) [t - 13..<t + 1]))"
proof -
  have "take 14 [t - 13..<length rs] = [t - 13..<t - 13 + 14]"
    using assms by (simp add: take_upt del: upt_Suc)
  moreover have "t - 13 + 14 = Suc t" using assms by simp
  ultimately have w: "take 14 (drop (t - 13) (map f [0..<length rs])) = map f [t - 13..<Suc t]"
    for f :: "nat \<Rightarrow> real"
    by (simp add: take_map drop_map del: upt_Suc)
  show "avg_gain (map Fin rs) ! t = Fin (mean (map (up rs) [t - 13..<t + 1]))"
    unfolding avg_gain_def gains_Fin using assms
    by (simp add: rolling_Fin_nth w del: upt_Suc map_map)
  show "avg_loss (map Fin rs) ! t = Fin (mean (map (down rs) [t - 13..<t + 1]))"
    unfolding avg_loss_def losses_Fin using assms
    by (simp add: rolling_Fin_nth w del: upt_Suc map_map)
qed

lemma sum_list_pos:
  fixes xs :: "real list"
  shows "\<forall>x \<in> set xs. 0 \<le> x \<Longrightarrow> y \<in> set xs \<Longrightarrow> 0 < y \<Longrightarrow> 0 < sum_list xs"
proof (induction xs)
  case Nil then show ?case by simp
next
  case (Cons x xs)
  have "0 \<le> sum_list xs" using Cons.prems(1) by (simp add: sum_list_nonneg)
  show ?case
  proof (cases "y = x")
    case True
    with Cons.prems \<open>0 \<le> sum_list xs\<close> show ?thesis by simp
  next
    case False
    with Cons have "0 < sum_list xs" by simp
    moreover have "0 \<le> x" using Cons.prems(1) by simp
    ultimately show ?thesis by simp
  qed
qed

lemma sum_list_all_zero:
  fixes xs :: "real list"
  shows "\<forall>x \<in> set xs. x = 0 \<Longrightarrow> sum_list xs = 0"
  by (induction xs) auto

lemma rising_up_down:
  assumes "sorted_wrt (<) rs" "k < length rs"
  shows "down rs k = 0" and "0 \<le> up rs k" and "0 < k \<Longrightarrow> 0 < up rs k"
proof -
  have "rs ! (k - 1) < rs ! k" if "0 < k"
    using assms that by (intro sorted_wrt_nth_less) simp_all
  then show "down rs k = 0" "0 < k \<Longrightarrow> 0 < up rs k"
    by (auto simp: down_def up_def)
  show "0 \<le> up rs k" by (simp add: up_def)
qed

lemma rsi_rising:
  assumes "sorted_wrt (<) rs" "13 \<le> t" "t < length rs"
  shows "rsi_column (map Fin rs) ! t = Fin 100"
proof -
  have in_range: "k < length rs" if "k \<in> set [t - 13..<t + 1]" for k
    using that assms(3) by auto
  have "sum_list (map (down rs) [t - 13..<t + 1]) = 0"
    using rising_up_down(1) [OF assms(1) in_range]
    by (intro sum_list_all_zero) auto
  then have loss: "avg_loss (map Fin rs) ! t = Fin 0"
    using assms by (simp add: avg_Fin_nth mean_def del: upt_Suc)
  have "up rs t \<in> set (map (up rs) [t - 13..<t + 1])" by simp
  moreover have "0 < up rs t"
    using assms by (intro rising_up_down(3)) simp_all
  moreover have "\<forall>x \<in> set (map (up rs) [t - 13..<t + 1]). 0 \<le> x"
    using rising_up_down(2) [OF assms(1) in_range] by auto
  ultimately have "0 < sum_list (map (up rs) [t - 13..<t + 1])"
    by (rule sum_list_pos [rotated])
  then have "0 < mean (map (up rs) [t - 13..<t + 1])"
    using assms(2) by (simp add: mean_def del: upt_Suc)
  then show ?thesis
    using assms loss by (intro rsi_saturates [where g = "mean (map (up rs) [t - 13..<t + 1])"])
      (simp_all add: avg_Fin_nth del: upt_Suc)
qed

lemma flat15_closes: "map Close flat15 = replicate 15 (Fin 100)"
  by (simp add: flat15_def map_replicate_trivial [symmetric] del: map_replicate_trivial)

text \<open>
  Claim C4 as stated fails on a flat series: with fifteen equal closes the trailing
  average loss at bar 14 is zero and the RSI is NaN (0/0), not 100.
\<close>

theorem rsi_zero_loss_counterexample:
  "avg_loss (map Close flat15) ! 14 = Fin 0 \<and> RSI (calculate_technical_indicators flat15 ! 14) = NaN"
proof -
  have len: "14 < length flat15" by (simp add: flat15_def)
  have c: "map Close flat15 = map Fin (replicate 15 100)"
    by (simp add: flat15_def comp_def map_replicate_const)
  have z: "sum_list (map (f (replicate 15 100)) [14 - 13..<14 + 1]) = 0"
    if "\<And>k. k < 15 \<Longrightarrow> f (replicate 15 100) k = 0" for f :: "real list \<Rightarrow> nat \<Rightarrow> real"
    by (intro sum_list_all_zero) (auto simp: that)
  have "avg_loss (map Fin (replicate 15 100)) ! 14 = Fin (mean (map (down (replicate 15 100)) [14 - 13..<14 + 1]))"
    "avg_gain (map Fin (replicate 15 100)) ! 14 = Fin (mean (map (up (replicate 15 100)) [14 - 13..<14 + 1]))"
    by (rule avg_Fin_nth; simp)+
  moreover have "mean (map (down (replicate 15 100)) [14 - 13..<14 + 1]) = 0"
    "mean (map (up (replicate 15 100)) [14 - 13..<14 + 1]) = 0"
    unfolding mean_def by (subst z; simp add: down_def up_def)+
  ultimately have "avg_loss (map Close flat15) ! 14 = Fin 0" "avg_gain (map Close flat15) ! 14 = Fin 0"
    unfolding c by simp_all
  then show ?thesis
    using len by (simp add: row_fields rsi_flat)
qed

text \<open>
  Claim C4, amended. When the 14-bar trailing average loss at a bar is zero and the
  trailing average gain is positive, the RSI is exactly 100; when both averages are zero
  the RSI is NaN. For a strictly increasing finite close series the RSI is 100 at every
  bar from index 13 on.
\<close>

theorem rsi_zero_loss:
  "(t < length data \<and> avg_loss (map Close data) ! t = Fin 0
      \<and> avg_gain (map Close data) ! t = Fin g \<and> 0 < g
     \<longrightarrow> RSI (calculate_technical_indicators data ! t) = Fin 100)
   \<and> (t < length data \<and> avg_loss (map Close data) ! t = Fin 0
      \<and> avg_gain (map Close data) ! t = Fin 0
     \<longrightarrow> RSI (calculate_technical_indicators data ! t) = NaN)
   \<and> (map Close data = map Fin rs \<and> sorted_wrt (<) rs \<and> 13 \<le> t \<and> t < length data
     \<longrightarrow> RSI (calculate_technical_indicators data ! t) = Fin 100)"
proof (intro conjI impI)
  assume "t < length data \<and> avg_loss (map Close data) ! t = Fin 0
      \<and> avg_gain (map Close data) ! t = Fin g \<and> 0 < g"
  then show "RSI (calculate_technical_indicators data ! t) = Fin 100"
    by (simp add: row_fields rsi_saturates)
next
  assume "t < length data \<and> avg_loss (map Close data) ! t = Fin 0
      \<and> avg_gain (map Close data) ! t = Fin 0"
  then show "RSI (calculate_technical_indicators data ! t) = NaN"
    by (simp add: row_fields rsi_flat)
next
  assume a: "map Close data = map Fin rs \<and> sorted_wrt (<) rs \<and> 13 \<le> t \<and> t < length data"
  then have "length rs = length data" by (metis length_map)
  with a show "RSI (calculate_technical_indicators data ! t) = Fin 100"
    by (simp add: row_fields rsi_rising)
qed

theorem rsi_zero_loss_witness:
  "RSI (calculate_technical_indicators rising15 ! 13) = Fin 100
   \<and> RSI (calculate_technical_indicators rising15 ! 14) = Fin 100"
proof -
  have c: "map Close rising15 = map Fin (map (\<lambda>d. 100 + real d) [0..<15])"
    by (simp add: rising15_def comp_def)
  have s: "sorted_wrt (<) (map (\<lambda>d. 100 + real d) [0..<15])"
    by (simp add: sorted_wrt_map)
  have l: "length rising15 = 15" by (simp add: rising15_def)
  show ?thesis
    using rsi_zero_loss [of 13 rising15 _ "map (\<lambda>d. 100 + real d) [0..<15]"]
      rsi_zero_loss [of 14 rising15 _ "map (\<lambda>d. 100 + real d) [0..<15]"] c s l
    by simp
qed

section \<open>Properties of the MACD columns and of the analysis run\<close>

lemma ewm_step_Some:
  "ewm_step a (Some w, W) (Some c) =
     (Some (if w \<noteq> c then (W * (1 - a) * w + 1 * c) / (W * (1 - a) + 1) else w),
      W * (1 - a) + 1)"
  by (simp add: Let_def)

lemma ewm_step_adjusted:
  assumes "0 < a" "a \<le> 1" "1 \<le> t"
  shows "ewm_step a (Some w, (1 - (1 - a) ^ t) / a) (Some c) =
     (Some (a / (1 - (1 - a) ^ (t + 1)) * c + (1 - a / (1 - (1 - a) ^ (t + 1))) * w),
      (1 - (1 - a) ^ (t + 1)) / a)"
proof -
  define q where "q = (1 - a) ^ t"
  have q: "0 \<le> q" "q \<le> 1" using assms by (simp_all add: q_def power_le_one)
  have "(1 - a) * q < 1"
  proof -
    have "(1 - a) * q \<le> (1 - a) * 1" using assms q by (intro mult_left_mono) simp_all
    also have "\<dots> < 1" using assms by simp
    finally show ?thesis .
  qed
  then have D0: "0 < 1 - (1 - a) * q" by simp
  define D where "D = 1 - (1 - a) * q"
  define W where "W = (1 - q) / a"
  have D: "D \<noteq> 0" using D0 by (simp add: D_def)
  have a0: "a \<noteq> 0" using assms(1) by simp
  have p: "1 - (1 - a) ^ (t + 1) = D" by (simp add: q_def D_def)
  have ow: "W * (1 - a) = (D - a) / a"
    by (simp add: D_def W_def algebra_simps)
  have e1: "W * (1 - a) + 1 = D / a"
    unfolding ow using a0 by (simp add: field_simps)
  have e2: "(W * (1 - a) * w + 1 * c) / (D / a) = a / D * c + (1 - a / D) * w"
    unfolding ow using a0 D by (simp add: field_simps)
  have same: "a / D * c + (1 - a / D) * c = c"
    by (simp add: algebra_simps)
  have "ewm_step a (Some w, W) (Some c) = (Some (a / D * c + (1 - a / D) * w), D / a)"
  proof (cases "w = c")
    case True
    then show ?thesis by (simp only: ewm_step_Some e1 same) simp
  next
    case False
    then show ?thesis by (simp only: ewm_step_Some e1 e2) simp
  qed
  then show ?thesis
    by (simp only: p W_def q_def)
qed

lemma ewm_scan_adjusted:
  "0 < a \<Longrightarrow> a \<le> 1 \<Longrightarrow> 1 \<le> t
   \<Longrightarrow> ewm_scan a (Some w, (1 - (1 - a) ^ t) / a) (map Some xs)
       = map Some (adjusted_ema_rec a t w xs)"
proof (induction xs arbitrary: t w)
  case Nil
  then show ?case by simp
next
  case (Cons x xs)
  have "1 \<le> t + 1" by simp
  from Cons.IH [OF Cons.prems(1,2) this] ewm_step_adjusted [OF Cons.prems]
  show ?case by (simp add: Let_def)
qed

lemma ewm_mean_adjusted:
  assumes "1 \<le> s"
  shows "ewm_mean s (map Fin rs) = map Fin (adjusted_ema s rs)"
proof (cases rs)
  case Nil
  then show ?thesis by (simp add: ewm_mean_def adjusted_ema_def prep_values_def)
next
  case (Cons r rest)
  define a where "a = 2 / (real s + 1)"
  have a: "0 < a" "a \<le> 1" using assms by (simp_all add: a_def)
  have "ewm_scan a (Some r, (1 - (1 - a) ^ 1) / a) (map Some rest)
      = map Some (adjusted_ema_rec a 1 r rest)"
    using a by (intro ewm_scan_adjusted) simp_all
  moreover have "(1 - (1 - a) ^ 1) / a = 1" using a by simp
  ultimately have "ewm_scan a (Some r, 1) (map Some rest) = map Some (adjusted_ema_rec a 1 r rest)"
    by simp
  moreover have "prep_values (Fin r # map Fin rest) = Some r # map Some rest"
    by (simp add: prep_values_def)
  ultimately show ?thesis
    by (simp add: Cons ewm_mean_def adjusted_ema_def a_def of_opt_def comp_def del: prep_values_Fin)
qed

lemma map2_fsub_Fin:
  "map2 fsub (map Fin xs) (map Fin ys) = map Fin (map2 (-) xs ys)"
  by (induction xs ys rule: list_induct2') (simp_all add: fsub_def)

lemma macd_column_adjusted:
  "macd_column (map Fin rs) = map Fin (map2 (-) (adjusted_ema 12 rs) (adjusted_ema 26 rs))"
  by (simp add: macd_column_def ewm_mean_adjusted map2_fsub_Fin)

lemma macd_signal_column_adjusted:
  "macd_signal_column (map Fin rs)
     = map Fin (adjusted_ema 9 (map2 (-) (adjusted_ema 12 rs) (adjusted_ema 26 rs)))"
proof -
  have "(1::nat) \<le> 9" by simp
  then show ?thesis
    by (simp only: macd_signal_column_def macd_column_adjusted ewm_mean_adjusted)
qed

lemma length_macd [simp]:
  "length (macd_column c) = length c" "length (macd_signal_column c) = length c"
  "length (macd_histogram_column c) = length c"
  by (simp_all add: macd_column_def macd_signal_column_def macd_histogram_column_def)

lemma row_columns:
  "map MACD (calculate_technical_indicators data) = macd_column (map Close data)"
  "map MACD_Signal (calculate_technical_indicators data) = macd_signal_column (map Close data)"
  "map MACD_Histogram (calculate_technical_indicators data) = macd_histogram_column (map Close data)"
  by (rule nth_equalityI; simp add: row_fields)+

text \<open>
  Claim C3 as stated fails on the second bar already: for the closes 100, 110 the code's
  MACD is 35/156, while the recurrence with the constant factor 2/(s+1) gives 280/351.
\<close>

theorem macd_recurrence_counterexample:
  "MACD (calculate_technical_indicators two_bars ! 1) = Fin (35 / 156)
   \<and> spec_ema 12 [100, 110] ! 1 - spec_ema 26 [100, 110] ! 1 = 280 / 351
   \<and> MACD (calculate_technical_indicators two_bars ! 1)
       \<noteq> Fin (spec_ema 12 [100, 110] ! 1 - spec_ema 26 [100, 110] ! 1)"
proof -
  have "macd_column [Fin 100, Fin 110] ! 1 = Fin (35 / 156)"
    by (simp add: macd_column_def ewm_mean_def prep_values_def of_opt_def Let_def fsub_def)
  then have m: "MACD (calculate_technical_indicators two_bars ! 1) = Fin (35 / 156)"
    by (simp add: row_fields two_bars_def)
  have s: "spec_ema 12 [100, 110] ! 1 - spec_ema 26 [100, 110] ! 1 = 280 / 351"
    by (simp add: spec_ema_def Let_def)
  show ?thesis unfolding m s by simp
qed

text \<open>
  Claim C3, amended. For every close series of finite values, MACD at bar t is
  EMA12[t] - EMA26[t], where the EMA of span s is seeded by the first close and follows
  EMA[t] = a_t * close[t] + (1 - a_t) * EMA[t-1] with the factor a_t = a / (1 - (1 - a)^(t+1)),
  a = 2/(s+1) (the default adjust=True of pandas' ewm); MACD_Signal is the span-9 EMA of
  MACD under the same recurrence; and MACD_Histogram = MACD - MACD_Signal at every bar, for
  every series.
\<close>

theorem macd_adjusted_ema:
  "(map Close data = map Fin rs \<longrightarrow>
      map MACD (calculate_technical_indicators data)
        = map Fin (map2 (-) (adjusted_ema 12 rs) (adjusted_ema 26 rs))
      \<and> map MACD_Signal (calculate_technical_indicators data)
        = map Fin (adjusted_ema 9 (map2 (-) (adjusted_ema 12 rs) (adjusted_ema 26 rs))))
   \<and> map MACD_Histogram (calculate_technical_indicators data)
        = map2 fsub (map MACD (calculate_technical_indicators data))
            (map MACD_Signal (calculate_technical_indicators data))
   \<and> (rs \<noteq> [] \<longrightarrow> adjusted_ema s rs ! 0 = rs ! 0)"
  by (auto simp: row_columns macd_column_adjusted macd_signal_column_adjusted
      macd_histogram_column_def adjusted_ema_def split: list.splits)

theorem macd_adjusted_ema_witness:
  "map MACD (calculate_technical_indicators two_bars) = [Fin 0, Fin (35 / 156)]
   \<and> adjusted_ema 12 [100, 110] ! 0 = 100"
proof -
  have c: "map Close two_bars = map Fin [100, 110]" by (simp add: two_bars_def)
  have "map2 (-) (adjusted_ema 12 [100, 110]) (adjusted_ema 26 [100, 110]) = [0, 35 / 156]"
    by (simp add: adjusted_ema_def Let_def)
  then show ?thesis
    using macd_adjusted_ema [of two_bars "[100, 110]" 12] c by simp
qed

lemma analyze_trends_total:
  assumes "\<forall>(s, rows) \<in> set xs. rows \<noteq> []"
  shows "\<exists>res. analyze_trends xs m = Inr res
       \<and> dom res = dom m \<union> fst ` set xs
       \<and> (distinct (map fst xs) \<longrightarrow>
            (\<forall>(s, rows) \<in> set xs. res s = Some (analyze_latest (last rows))))
       \<and> (\<forall>s. s \<notin> fst ` set xs \<longrightarrow> res s = m s)"
  using assms
proof (induction xs arbitrary: m)
  case Nil
  then show ?case by simp
next
  case (Cons p xs)
  obtain s rows where p: "p = (s, rows)" by (cases p)
  with Cons.prems have ne: "rows \<noteq> []" and rest: "\<forall>(s, rows) \<in> set xs. rows \<noteq> []"
    by auto
  let ?m = "m(s \<mapsto> analyze_latest (last rows))"
  from Cons.IH [OF rest, of ?m] obtain res where
    r: "analyze_trends xs ?m = Inr res" "dom res = dom ?m \<union> fst ` set xs"
      "distinct (map fst xs) \<longrightarrow> (\<forall>(s, rows) \<in> set xs. res s = Some (analyze_latest (last rows)))"
      "\<forall>k. k \<notin> fst ` set xs \<longrightarrow> res k = ?m k"
    by blast
  have "analyze_trends (p # xs) m = Inr res"
    using ne r(1) by (simp add: p iloc_last_def)
  moreover have "dom res = dom m \<union> fst ` set (p # xs)"
    using r(2) by (auto simp: p)
  moreover have "distinct (map fst (p # xs)) \<longrightarrow>
      (\<forall>(s, rows) \<in> set (p # xs). res s = Some (analyze_latest (last rows)))"
    using r(3,4) by (auto simp: p)
  moreover have "\<forall>k. k \<notin> fst ` set (p # xs) \<longrightarrow> res k = m k"
    using r(4) by (auto simp: p)
  ultimately show ?case by blast
qed

lemma iloc_last_empty: "analyze_trends ((s, []) # xs) m = Inl IndexError"
  by (simp add: iloc_last_def)

lemma pipeline_rows_nonempty:
  "d \<noteq> [] \<Longrightarrow> calculate_technical_indicators (clean_frame d) \<noteq> []"
proof -
  assume "d \<noteq> []"
  moreover have "length (calculate_technical_indicators (clean_frame d)) = length d"
    by (simp add: clean_frame_columns(1))
  ultimately show ?thesis by (metis length_0_conv)
qed

text \<open>
  Claim C1, amended. For every symbol with a non-empty series (the fetch stores no empty
  one), whether or not indicator fields of its latest bar are undefined, the run produces
  a Signal Set from the latest row and stores it in the Analysis Result; no symbol is
  excluded and there is no "insufficient history" status.
\<close>

theorem pipeline_always_emits:
  assumes "distinct (map fst stock_data)" "\<forall>(s, d) \<in> set stock_data. d \<noteq> []"
  shows "\<exists>res. analysis_pipeline stock_data = Inr res
       \<and> dom res = fst ` set stock_data
       \<and> (\<forall>(s, d) \<in> set stock_data.
            res s = Some (analyze_latest (last (calculate_technical_indicators (clean_frame d)))))"
proof -
  let ?xs = "map (\<lambda>(symbol, data). (symbol, calculate_technical_indicators data))
          (clean_and_preprocess_data stock_data)"
  have xs: "?xs = map (\<lambda>(s, d). (s, calculate_technical_indicators (clean_frame d))) stock_data"
    by (simp add: clean_and_preprocess_data_def case_prod_unfold)
  have keys: "map fst ?xs = map fst stock_data"
    unfolding xs by (simp add: case_prod_unfold comp_def)
  have ne: "\<forall>(s, rows) \<in> set ?xs. rows \<noteq> []"
    using assms(2) unfolding xs
    by (auto dest: pipeline_rows_nonempty)
  from analyze_trends_total [OF ne, of Map.empty] obtain res where
    r: "analyze_trends ?xs Map.empty = Inr res" "dom res = fst ` set ?xs"
      "distinct (map fst ?xs) \<longrightarrow> (\<forall>(s, rows) \<in> set ?xs. res s = Some (analyze_latest (last rows)))"
    by auto
  have "fst ` set ?xs = fst ` set stock_data"
    using keys by (metis list.set_map)
  moreover have "\<forall>(s, d) \<in> set stock_data.
      res s = Some (analyze_latest (last (calculate_technical_indicators (clean_frame d))))"
    using r(3) assms(1) unfolding keys unfolding xs by auto
  ultimately show ?thesis
    using r(1,2) by (auto simp: analysis_pipeline_def)
qed

lemma rolling_short: "t + 1 < w \<Longrightarrow> t < length xs \<Longrightarrow> rolling w f xs ! t = NaN"
  by (simp add: rolling_def window_stat_def)

lemma fl_NaN_simps [simp]:
  "fsub a NaN = NaN" "fsub NaN a = NaN" "fadd a NaN = NaN" "fdiv a NaN = NaN"
  by (cases a; simp add: fsub_def)+

lemma short_series_undefined:
  assumes "length data < 14" "t < length data"
  shows "MA_50 (calculate_technical_indicators data ! t) = NaN"
    and "MA_200 (calculate_technical_indicators data ! t) = NaN"
    and "RSI (calculate_technical_indicators data ! t) = NaN"
    and "BB_Middle (calculate_technical_indicators data ! t) = NaN"
    and "BB_Upper (calculate_technical_indicators data ! t) = NaN"
    and "BB_Lower (calculate_technical_indicators data ! t) = NaN"
    and "Volatility (calculate_technical_indicators data ! t) = NaN"
  using assms
  by (simp_all add: row_fields ma_column_def rsi_column_nth avg_gain_def avg_loss_def
      bb_upper_column_def bb_lower_column_def volatility_column_def rolling_short
      where_else_def)

lemma ewm_scan_const:
  "ewm_scan a (Some c, W) (replicate n (Some c)) = replicate n (Some c)"
  by (induction n arbitrary: W) (simp_all add: Let_def)

lemma ewm_mean_const: "ewm_mean s (replicate n (Fin c)) = replicate n (Fin c)"
  by (cases n) (simp_all add: ewm_mean_def prep_values_def Let_def ewm_scan_const of_opt_def)

lemma macd_const:
  "macd_column (replicate n (Fin c)) = replicate n (Fin 0)"
  "macd_signal_column (replicate n (Fin c)) = replicate n (Fin 0)"
proof -
  show m: "macd_column (replicate n (Fin c)) = replicate n (Fin 0)"
    by (simp add: macd_column_def ewm_mean_const zip_replicate fsub_def)
  show "macd_signal_column (replicate n (Fin c)) = replicate n (Fin 0)"
    by (simp only: macd_signal_column_def m ewm_mean_const)
qed

lemma ten_bars_closes: "map Close ten_bars = replicate 10 (Fin 100)"
  by (simp add: ten_bars_def comp_def map_replicate_const)

lemma ten_bars_clean: "clean_frame ten_bars = ten_bars"
proof (rule clean_frame_id)
  show "no_missing ten_bars" by (simp add: no_missing_def ten_bars_def list_all_iff)
  have "replicate 10 (Fin 100) = [Fin 100, Fin 100, Fin 100, Fin 100, Fin 100, Fin 100, Fin 100, Fin 100, Fin 100, Fin (100::real)]"
    by (simp add: eval_nat_numeral)
  then show "no_jump (map Close ten_bars)"
    by (simp add: ten_bars_closes no_jump_def fsub_def)
qed

lemma ten_bars_latest:
  "ten_bars \<noteq> []" "length ten_bars = 10"
  "last (calculate_technical_indicators ten_bars) = calculate_technical_indicators ten_bars ! 9"
proof -
  show l: "length ten_bars = 10" by (simp add: ten_bars_def)
  then show "ten_bars \<noteq> []" by auto
  have "calculate_technical_indicators ten_bars \<noteq> []"
    using l by (metis length_calculate_technical_indicators length_0_conv zero_neq_numeral)
  then show "last (calculate_technical_indicators ten_bars) = calculate_technical_indicators ten_bars ! 9"
    using l by (simp add: last_conv_nth)
qed

lemma ten_bars_row:
  "Close (calculate_technical_indicators ten_bars ! 9) = Fin 100"
  "MACD (calculate_technical_indicators ten_bars ! 9) = Fin 0"
  "MACD_Signal (calculate_technical_indicators ten_bars ! 9) = Fin 0"
  by (simp_all add: row_fields ten_bars_latest(2) ten_bars_closes macd_const)
     (simp add: ten_bars_def)

lemma ten_bars_analysis:
  "analyze_latest (calculate_technical_indicators ten_bars ! 9) =
     \<lparr>ma_signal = ''Bearish'', rsi_value = NaN, rsi_signal = ''Neutral'',
      macd_signal = ''Bearish'', bb_signal = ''Within normal range'', score = - 2,
      recommendation = ''Strong Sell'', current_price = Fin 100, volatility = NaN\<rparr>"
proof -
  have u: "MA_50 (calculate_technical_indicators ten_bars ! 9) = NaN"
    "RSI (calculate_technical_indicators ten_bars ! 9) = NaN"
    "BB_Upper (calculate_technical_indicators ten_bars ! 9) = NaN"
    "BB_Lower (calculate_technical_indicators ten_bars ! 9) = NaN"
    "Volatility (calculate_technical_indicators ten_bars ! 9) = NaN"
    by (rule short_series_undefined; simp add: ten_bars_latest(2))+
  have ma: "get_ma_signal (calculate_technical_indicators ten_bars ! 9) = ''Bearish''"
    by (rule get_ma_signal_NaN [OF u(1)])
  have macd: "get_macd_signal (calculate_technical_indicators ten_bars ! 9) = ''Bearish''"
    by (simp add: get_macd_signal_def ten_bars_row)
  have bb: "get_bb_signal (calculate_technical_indicators ten_bars ! 9) = ''Within normal range''"
    by (simp add: get_bb_signal_def u flt_def)
  show ?thesis
    by (simp only: analyze_latest_def analyze_single_stock_unfold ma macd bb u get_rsi_signal_NaN
        score_bearish_neutral_bearish get_recommendation_table ten_bars_row)
       (simp add: analysis.extend_def result.fields_def analysis.defs result.defs)
qed

text \<open>
  Claim C1 as stated fails: for a 10-bar series the latest MA_50 is NaN, and the run still
  puts the symbol into the Analysis Result with a complete Signal Set.
\<close>

theorem insufficient_history_counterexample:
  "MA_50 (last (calculate_technical_indicators (clean_frame ten_bars))) = NaN
   \<and> analysis_pipeline [(''AAPL'', ten_bars)] =
       Inr [''AAPL'' \<mapsto>
         \<lparr>ma_signal = ''Bearish'', rsi_value = NaN, rsi_signal = ''Neutral'',
          macd_signal = ''Bearish'', bb_signal = ''Within normal range'', score = - 2,
          recommendation = ''Strong Sell'', current_price = Fin 100, volatility = NaN\<rparr>]"
proof -
  have "MA_50 (calculate_technical_indicators ten_bars ! 9) = NaN"
    by (rule short_series_undefined; simp add: ten_bars_latest(2))
  moreover have "calculate_technical_indicators ten_bars \<noteq> []"
    using ten_bars_latest(2) by (metis length_calculate_technical_indicators length_0_conv zero_neq_numeral)
  ultimately show ?thesis
    by (simp add: analysis_pipeline_def clean_and_preprocess_data_def ten_bars_clean
        iloc_last_def ten_bars_latest(3) ten_bars_analysis)
qed

theorem pipeline_always_emits_witness:
  "\<exists>res. analysis_pipeline [(''AAPL'', ten_bars)] = Inr res \<and> dom res = {''AAPL''}
     \<and> res ''AAPL'' = Some (analyze_latest (last (calculate_technical_indicators (clean_frame ten_bars))))"
  using pipeline_always_emits [of "[(''AAPL'', ten_bars)]"] ten_bars_latest(1)
  by simp

end
